theory Spec2Isabelle
  imports Main "HOL-Library.Word"
begin

section \<open>The ES|QL language-service adapter: offsets, markers, suggestions\<close>

text \<open>
  The adapter (\<^verbatim>\<open>src/unnamed/part_000\<close>) turns the linear offsets of parser
  messages into editor positions. Its three pieces of logic are embedded here:
  \<^verbatim>\<open>offsetToRowColumn\<close>, \<^verbatim>\<open>wrapAsMonacoMessage\<close> and the range reset of
  \<^verbatim>\<open>ESQLAstAdapter.autocomplete\<close>.
\<close>

subsection \<open>Data model\<close>

text \<open>
  A JavaScript string is a sequence of UTF-16 code units, and \<^verbatim>\<open>length\<close> counts
  code units. Offsets, line numbers and columns are JavaScript numbers that hold
  integers here; they are modelled as \<open>int\<close>, so a negative offset is an input too.
\<close>

type_synonym code_unit = "16 word"
type_synonym js_string = "code_unit list"

definition newline :: code_unit where
  "newline = 0x0A"

text \<open>\<^verbatim>\<open>throw new Error('Algorithm failure')\<close> is the only error the file raises.\<close>

datatype error = AlgorithmFailure

text \<open>\<^verbatim>\<open>monaco.Position\<close>; the fallback object literal has the same two fields.\<close>

record Position =
  lineNumber :: int
  column :: int

subsection \<open>offsetToRowColumn\<close>

text \<open>
  \<^verbatim>\<open>expression.split(/\n/)\<close>: the pieces between the newlines, in order. A string
  with \<open>n\<close> newlines gives \<open>n + 1\<close> pieces; the empty string gives one empty piece.
\<close>

fun split_newline :: "js_string \<Rightarrow> js_string list" where
  "split_newline [] = [[]]"
| "split_newline (c # cs) =
     (if c = newline then [] # split_newline cs
      else (case split_newline cs of
              [] \<Rightarrow> [[c]]
            | line # lines \<Rightarrow> (c # line) # lines))"

text \<open>
  The \<^verbatim>\<open>for (const line of lines)\<close> loop with its two variables
  \<^verbatim>\<open>remainingChars\<close> and \<^verbatim>\<open>lineNumber\<close>; running off the end of the lines
  reaches the \<^verbatim>\<open>throw\<close>.
\<close>

fun offsetToRowColumn_loop :: "js_string list \<Rightarrow> int \<Rightarrow> int \<Rightarrow> error + Position" where
  "offsetToRowColumn_loop [] remainingChars lineNo = Inl AlgorithmFailure"
| "offsetToRowColumn_loop (line # lines) remainingChars lineNo =
     (if int (length line) \<ge> remainingChars
      then Inr \<lparr>lineNumber = lineNo, column = remainingChars + 1\<rparr>
      else offsetToRowColumn_loop lines (remainingChars - (int (length line) + 1)) (lineNo + 1))"

definition offsetToRowColumn :: "js_string \<Rightarrow> int \<Rightarrow> error + Position" where
  "offsetToRowColumn expression offset =
     offsetToRowColumn_loop (split_newline expression) offset 1"

text \<open>
  The way back, in the words of the specification: the lengths of the lines before the
  position's line, plus one for each of their newlines, plus \<open>column - 1\<close>.
\<close>

definition rowColumnToOffset :: "js_string \<Rightarrow> Position \<Rightarrow> int" where
  "rowColumnToOffset expression p =
     (\<Sum>line \<leftarrow> take (nat (lineNumber p - 1)) (split_newline expression). int (length line) + 1)
       + (column p - 1)"

text \<open>The buffer \<^verbatim>\<open>"A\nBB\nC"\<close> of the specification's examples, as code units.\<close>

definition example_buffer :: js_string where
  "example_buffer = [0x41, 0x0A, 0x42, 0x42, 0x0A, 0x43]"

subsection \<open>wrapAsMonacoMessage\<close>

text \<open>
  The parameter \<^verbatim>\<open>type: 'error' | 'warning'\<close> and the two members of
  \<^verbatim>\<open>monaco.MarkerSeverity\<close> (Hint, Info, Warning, Error) the function can produce.
\<close>

datatype MessageType = TypeError | TypeWarning

datatype MarkerSeverity = Hint | Info | Warning | Error

datatype MarkerSource = client | server

text \<open>
  A raw parser message (\<^verbatim>\<open>ESQLMessage\<close>) has a \<^verbatim>\<open>text\<close> and a
  \<^verbatim>\<open>location\<close> with \<^verbatim>\<open>min\<close> and \<^verbatim>\<open>max\<close>. The code tests
  \<^verbatim>\<open>e.location\<close> and \<^verbatim>\<open>e.location.max\<close> for truthiness, so both may be
  absent. The field names \<^verbatim>\<open>min\<close>, \<^verbatim>\<open>max\<close> and \<^verbatim>\<open>text\<close> carry a suffix.
\<close>

record ESQLLocation =
  min_offset :: int
  max_offset :: "int option"

record ESQLMessage =
  text_of :: js_string
  location :: "ESQLLocation option"

text \<open>
  An editor marker (\<^verbatim>\<open>EditorError\<close>), with the fields of the object literal the
  function builds; \<open>source\<close> is the field \<^verbatim>\<open>_source\<close>.
\<close>

record EditorError =
  message :: js_string
  startColumn :: int
  startLineNumber :: int
  endColumn :: int
  endLineNumber :: int
  severity :: MarkerSeverity
  source :: "MarkerSource option"

text \<open>
  An element of \<^verbatim>\<open>Array<ESQLMessage | EditorError>\<close>. The test
  \<^verbatim>\<open>'severity' in e\<close> tells the two apart: it holds of a \<open>Marker\<close> and of no
  \<open>Raw\<close> message. The callback returns \<^verbatim>\<open>e\<close> itself in its first branch, so
  its result is a value of the same union.
\<close>

datatype Message = Raw ESQLMessage | Marker EditorError

definition fallbackPosition :: Position where
  "fallbackPosition = \<lparr>lineNumber = 0, column = 0\<rparr>"

text \<open>\<^verbatim>\<open>e.location.max || 0\<close>: an absent or zero \<^verbatim>\<open>max\<close> is falsy and gives 0.\<close>

definition max_or_zero :: "int option \<Rightarrow> int" where
  "max_or_zero m = (case m of None \<Rightarrow> 0 | Some n \<Rightarrow> (if n = 0 then 0 else n))"

text \<open>The callback of \<^verbatim>\<open>messages.map\<close>. A throw of the translator leaves it.\<close>

fun wrapMessage :: "MessageType \<Rightarrow> js_string \<Rightarrow> Message \<Rightarrow> error + Message" where
  "wrapMessage type code (Marker e) = Inr (Marker e)"
| "wrapMessage type code (Raw e) =
     (case (case location e of
              Some loc \<Rightarrow> offsetToRowColumn code (min_offset loc)
            | None \<Rightarrow> Inr fallbackPosition) of
        Inl err \<Rightarrow> Inl err
      | Inr startPosition \<Rightarrow>
          (case (case location e of
                   Some loc \<Rightarrow> offsetToRowColumn code (max_or_zero (max_offset loc))
                 | None \<Rightarrow> Inr fallbackPosition) of
             Inl err \<Rightarrow> Inl err
           | Inr endPosition \<Rightarrow>
               Inr (Marker
                 \<lparr>message = text_of e,
                  startColumn = column startPosition,
                  startLineNumber = lineNumber startPosition,
                  endColumn = column endPosition + 1,
                  endLineNumber = lineNumber endPosition,
                  severity = (if type = TypeError then Error else Warning),
                  source = Some client\<rparr>)))"

text \<open>
  \<^verbatim>\<open>Array.prototype.map\<close> with a callback that may throw: the elements are visited
  in order and the first throw ends the whole call.
\<close>

fun map_throwing :: "('a \<Rightarrow> error + 'b) \<Rightarrow> 'a list \<Rightarrow> error + 'b list" where
  "map_throwing f [] = Inr []"
| "map_throwing f (x # xs) =
     (case f x of
        Inl err \<Rightarrow> Inl err
      | Inr y \<Rightarrow> (case map_throwing f xs of Inl err \<Rightarrow> Inl err | Inr ys \<Rightarrow> Inr (y # ys)))"

definition wrapAsMonacoMessage :: "MessageType \<Rightarrow> js_string \<Rightarrow> Message list \<Rightarrow> error + Message list" where
  "wrapAsMonacoMessage type code messages = map_throwing (wrapMessage type code) messages"

text \<open>The message text \<^verbatim>\<open>"bad"\<close> of the specification's example.\<close>

definition example_text :: js_string where
  "example_text = [0x62, 0x61, 0x64]"

subsection \<open>ESQLAstAdapter.autocomplete\<close>

text \<open>
  A suggestion entry comes from the external \<^verbatim>\<open>suggest\<close> module and is opaque to
  the adapter: an object, that is a finite map from field names to values, where a
  field may hold \<^verbatim>\<open>undefined\<close>. The list \<^verbatim>\<open>suggest\<close> resolves to is the
  parameter \<open>suggestionEntries\<close>; the two \<^verbatim>\<open>await\<close>s before it have no
  effect on the result. The object spread copies every field, then \<^verbatim>\<open>range\<close> is set.
\<close>

datatype 'v js_value = Undefined | Defined 'v

type_synonym 'v js_object = "string \<rightharpoonup> 'v js_value"

record 'v CompletionList =
  suggestions :: "'v js_object list"

definition autocomplete :: "'v js_object list \<Rightarrow> 'v CompletionList" where
  "autocomplete suggestionEntries =
     \<lparr>suggestions = map (\<lambda>suggestion. suggestion(''range'' \<mapsto> Undefined)) suggestionEntries\<rparr>"

section \<open>Properties of the offset translator\<close>

lemma split_newline_nonempty: "split_newline b \<noteq> []"
  by (induction b) (auto split: list.splits)

lemma split_newline_total_length:
  "(\<Sum>line \<leftarrow> split_newline b. int (length line) + 1) = int (length b) + 1"
proof (induction b)
  case Nil
  show ?case by simp
next
  case (Cons c cs)
  show ?case
  proof (cases "c = newline")
    case True
    with Cons show ?thesis by simp
  next
    case False
    obtain l ls where s: "split_newline cs = l # ls"
      using split_newline_nonempty [of cs] by (cases "split_newline cs") auto
    with Cons False show ?thesis by simp
  qed
qed

lemma loop_result:
  "offsetToRowColumn_loop ls r n = Inr p \<Longrightarrow>
   \<exists>k < length ls. lineNumber p = n + int k
     \<and> column p = r - (\<Sum>line \<leftarrow> take k ls. int (length line) + 1) + 1
     \<and> column p - 1 \<le> int (length (ls ! k))
     \<and> (0 \<le> r \<longrightarrow> 1 \<le> column p)"
proof (induction ls arbitrary: r n)
  case Nil
  then show ?case by simp
next
  case (Cons l ls)
  show ?case
  proof (cases "int (length l) \<ge> r")
    case True
    with Cons.prems have "p = \<lparr>lineNumber = n, column = r + 1\<rparr>" by simp
    with True show ?thesis by (intro exI [of _ 0]) simp
  next
    case False
    with Cons.prems
    have "offsetToRowColumn_loop ls (r - (int (length l) + 1)) (n + 1) = Inr p" by simp
    from Cons.IH [OF this] obtain k where k: "k < length ls"
      "lineNumber p = n + 1 + int k"
      "column p = r - (int (length l) + 1) - (\<Sum>line \<leftarrow> take k ls. int (length line) + 1) + 1"
      "column p - 1 \<le> int (length (ls ! k))"
      "0 \<le> r - (int (length l) + 1) \<longrightarrow> 1 \<le> column p"
      by blast
    with False show ?thesis by (intro exI [of _ "Suc k"]) simp
  qed
qed

lemma loop_succeeds:
  "ls \<noteq> [] \<Longrightarrow> r \<le> (\<Sum>line \<leftarrow> ls. int (length line) + 1) - 1 \<Longrightarrow>
   \<exists>p. offsetToRowColumn_loop ls r n = Inr p"
proof (induction ls arbitrary: r n)
  case Nil
  then show ?case by simp
next
  case (Cons l ls)
  show ?case
  proof (cases "int (length l) \<ge> r")
    case True
    then show ?thesis by simp
  next
    case False
    with Cons.prems have ne: "ls \<noteq> []" by (cases ls) auto
    from Cons.prems have "r - (int (length l) + 1) \<le> (\<Sum>line \<leftarrow> ls. int (length line) + 1) - 1"
      by simp
    from Cons.IH [OF ne this, of "n + 1"] False show ?thesis by simp
  qed
qed

lemma loop_fails:
  "(\<Sum>line \<leftarrow> ls. int (length line) + 1) - 1 < r \<Longrightarrow>
   offsetToRowColumn_loop ls r n = Inl AlgorithmFailure"
proof (induction ls arbitrary: r n)
  case Nil
  show ?case by simp
next
  case (Cons l ls)
  have "0 \<le> (\<Sum>line \<leftarrow> ls. int (length line) + 1)"
    by (rule sum_list_nonneg) auto
  with Cons.prems have "\<not> int (length l) \<ge> r" by simp
  moreover from Cons.prems
  have "(\<Sum>line \<leftarrow> ls. int (length line) + 1) - 1 < r - (int (length l) + 1)" by simp
  ultimately show ?case using Cons.IH by simp
qed

lemma offsetToRowColumn_succeeds:
  "offset \<le> int (length expression) \<Longrightarrow> \<exists>p. offsetToRowColumn expression offset = Inr p"
  unfolding offsetToRowColumn_def
  by (rule loop_succeeds) (simp_all add: split_newline_nonempty split_newline_total_length)

lemma offsetToRowColumn_fails:
  "int (length expression) < offset \<Longrightarrow> offsetToRowColumn expression offset = Inl AlgorithmFailure"
  unfolding offsetToRowColumn_def
  by (rule loop_fails) (simp add: split_newline_total_length)

lemma offsetToRowColumn_zero:
  "offsetToRowColumn expression 0 = Inr \<lparr>lineNumber = 1, column = 1\<rparr>"
proof -
  obtain l ls where "split_newline expression = l # ls"
    using split_newline_nonempty [of expression] by (cases "split_newline expression") auto
  then show ?thesis by (simp add: offsetToRowColumn_def)
qed

lemma example_buffer_lines:
  "split_newline example_buffer = [[0x41], [0x42, 0x42], [0x43]]"
  by (simp add: example_buffer_def newline_def)

lemma example_buffer_length: "length example_buffer = 6"
  by (simp add: example_buffer_def)

text \<open>
  C1. For every buffer and every offset between 0 and the buffer's length, the
  translator returns a position with a 1-based line and a 1-based column inside that
  line, and mapping the position back (lengths of the preceding lines, one per
  newline, column minus one) gives the offset again.
\<close>

theorem offsetToRowColumn_round_trip:
  assumes "0 \<le> offset" and "offset \<le> int (length expression)"
  shows "\<exists>p. offsetToRowColumn expression offset = Inr p
           \<and> 1 \<le> lineNumber p
           \<and> lineNumber p \<le> int (length (split_newline expression))
           \<and> 1 \<le> column p
           \<and> column p - 1 \<le> int (length (split_newline expression ! nat (lineNumber p - 1)))
           \<and> rowColumnToOffset expression p = offset"
proof -
  from assms(2) obtain p where p: "offsetToRowColumn expression offset = Inr p"
    using offsetToRowColumn_succeeds by blast
  then have "offsetToRowColumn_loop (split_newline expression) offset 1 = Inr p"
    by (simp add: offsetToRowColumn_def)
  from loop_result [OF this] obtain k where k: "k < length (split_newline expression)"
    "lineNumber p = 1 + int k"
    "column p = offset - (\<Sum>line \<leftarrow> take k (split_newline expression). int (length line) + 1) + 1"
    "column p - 1 \<le> int (length (split_newline expression ! k))"
    "0 \<le> offset \<longrightarrow> 1 \<le> column p"
    by blast
  from k assms(1) have "rowColumnToOffset expression p = offset"
    by (simp add: rowColumnToOffset_def)
  with p k assms(1) show ?thesis by simp
qed

theorem offsetToRowColumn_round_trip_witness:
  "offsetToRowColumn example_buffer 3 = Inr \<lparr>lineNumber = 2, column = 2\<rparr>
   \<and> rowColumnToOffset example_buffer \<lparr>lineNumber = 2, column = 2\<rparr> = 3"
proof -
  have lo: "(0::int) \<le> 3" and hi: "3 \<le> int (length example_buffer)"
    by (simp_all add: example_buffer_length)
  from offsetToRowColumn_round_trip [OF lo hi]
  obtain p where p: "offsetToRowColumn example_buffer 3 = Inr p"
    and inv: "rowColumnToOffset example_buffer p = 3"
    by blast
  from p have "p = \<lparr>lineNumber = 2, column = 2\<rparr>"
    by (simp add: offsetToRowColumn_def example_buffer_lines)
  with p inv show ?thesis by simp
qed

text \<open>
  C2. The translator raises its error exactly when the offset is greater than the
  buffer's length; for every other offset it returns a position.
\<close>

theorem offsetToRowColumn_fails_iff:
  "(offsetToRowColumn expression offset = Inl AlgorithmFailure) = (int (length expression) < offset)"
proof (cases "int (length expression) < offset")
  case True
  then show ?thesis by (simp add: offsetToRowColumn_fails)
next
  case False
  then obtain p where "offsetToRowColumn expression offset = Inr p"
    using offsetToRowColumn_succeeds [of offset expression] by auto
  with False show ?thesis by simp
qed

theorem offsetToRowColumn_fails_iff_witness:
  "offsetToRowColumn example_buffer 7 = Inl AlgorithmFailure
   \<and> offsetToRowColumn example_buffer 6 \<noteq> Inl AlgorithmFailure"
  using offsetToRowColumn_fails_iff [of example_buffer 7]
    offsetToRowColumn_fails_iff [of example_buffer 6]
  by (simp add: example_buffer_def)

section \<open>Properties of the message wrapper\<close>

lemma map_throwing_Inr:
  "map_throwing f xs = Inr ys \<Longrightarrow> list_all2 (\<lambda>x y. f x = Inr y) xs ys"
proof (induction xs arbitrary: ys)
  case Nil
  then show ?case by simp
next
  case (Cons x xs)
  from Cons.prems obtain y ys' where "f x = Inr y" "map_throwing f xs = Inr ys'" "ys = y # ys'"
    by (auto split: sum.splits)
  with Cons.IH show ?case by simp
qed

lemma wrapAsMonacoMessage_nth:
  assumes "wrapAsMonacoMessage type code messages = Inr out" and "i < length messages"
  shows "wrapMessage type code (messages ! i) = Inr (out ! i)"
  using map_throwing_Inr [of "wrapMessage type code" messages out] assms
  by (simp add: wrapAsMonacoMessage_def list_all2_conv_all_nth)

lemma wrapAsMonacoMessage_length:
  "wrapAsMonacoMessage type code messages = Inr out \<Longrightarrow> length out = length messages"
  using map_throwing_Inr [of "wrapMessage type code" messages out]
  by (simp add: wrapAsMonacoMessage_def list_all2_lengthD)

lemma wrapMessage_is_Marker:
  "wrapMessage type code m = Inr m' \<Longrightarrow> \<exists>e. m' = Marker e"
  by (cases m) (auto split: sum.splits option.splits)

lemma map_throwing_fixed:
  "(\<And>x. x \<in> set xs \<Longrightarrow> f x = Inr x) \<Longrightarrow> map_throwing f xs = Inr xs"
  by (induction xs) auto

lemma wrapMessage_location:
  assumes "location e = Some loc"
  shows "wrapMessage type code (Raw e) = Inr m' \<longleftrightarrow>
    (\<exists>ps pe. offsetToRowColumn code (min_offset loc) = Inr ps
       \<and> offsetToRowColumn code (max_or_zero (max_offset loc)) = Inr pe
       \<and> m' = Marker \<lparr>message = text_of e,
                  startColumn = column ps,
                  startLineNumber = lineNumber ps,
                  endColumn = column pe + 1,
                  endLineNumber = lineNumber pe,
                  severity = (if type = TypeError then Error else Warning),
                  source = Some client\<rparr>)"
  using assms by (auto split: sum.splits)

lemma map_throwing_succeeds:
  "(\<And>x. x \<in> set xs \<Longrightarrow> \<exists>y. f x = Inr y) \<Longrightarrow> \<exists>ys. map_throwing f xs = Inr ys"
proof (induction xs)
  case Nil
  show ?case by simp
next
  case (Cons x xs)
  from Cons.prems obtain y where y: "f x = Inr y" by auto
  from Cons obtain ys where "map_throwing f xs = Inr ys" by auto
  with y show ?case by simp
qed

lemma wrapMessage_succeeds:
  assumes "\<forall>r loc. msg = Raw r \<and> location r = Some loc \<longrightarrow>
             min_offset loc \<le> int (length code)
             \<and> max_or_zero (max_offset loc) \<le> int (length code)"
  shows "\<exists>m. wrapMessage type code msg = Inr m"
proof (cases msg)
  case (Marker e)
  then show ?thesis by simp
next
  case (Raw r)
  show ?thesis
  proof (cases "location r")
    case None
    with Raw show ?thesis by simp
  next
    case (Some loc)
    with Raw assms have "min_offset loc \<le> int (length code)"
      and "max_or_zero (max_offset loc) \<le> int (length code)" by auto
    then obtain ps pe where "offsetToRowColumn code (min_offset loc) = Inr ps"
      and "offsetToRowColumn code (max_or_zero (max_offset loc)) = Inr pe"
      using offsetToRowColumn_succeeds by blast
    with Raw Some show ?thesis by simp
  qed
qed

lemma wrapAsMonacoMessage_succeeds:
  assumes "\<forall>msg \<in> set messages. \<forall>r loc. msg = Raw r \<and> location r = Some loc \<longrightarrow>
             min_offset loc \<le> int (length code)
             \<and> max_or_zero (max_offset loc) \<le> int (length code)"
  shows "\<exists>out. wrapAsMonacoMessage type code messages = Inr out"
  unfolding wrapAsMonacoMessage_def
proof (rule map_throwing_succeeds)
  fix x assume "x \<in> set messages"
  with assms show "\<exists>y. wrapMessage type code x = Inr y"
    by (intro wrapMessage_succeeds) blast
qed

text \<open>
  C3. On the example buffer, whose length is 6, offset 3 is line 2, column 2. Offset 6,
  the end of the buffer, is line 3, column 2 (the position after the last character);
  line 3, column 1 is offset 5.
\<close>

theorem offsetToRowColumn_example:
  "length example_buffer = 6
   \<and> offsetToRowColumn example_buffer 3 = Inr \<lparr>lineNumber = 2, column = 2\<rparr>
   \<and> offsetToRowColumn example_buffer 5 = Inr \<lparr>lineNumber = 3, column = 1\<rparr>
   \<and> offsetToRowColumn example_buffer 6 = Inr \<lparr>lineNumber = 3, column = 2\<rparr>"
  by (simp add: offsetToRowColumn_def example_buffer_lines) (simp add: example_buffer_def)

theorem offsetToRowColumn_example_end_counterexample:
  "offsetToRowColumn example_buffer 6 = Inr \<lparr>lineNumber = 3, column = 2\<rparr>
   \<and> offsetToRowColumn example_buffer 6 \<noteq> Inr \<lparr>lineNumber = 3, column = 1\<rparr>"
  by (simp add: offsetToRowColumn_def example_buffer_lines)

text \<open>
  C4. For every severity tag and buffer, a message that already is a marker is returned
  unchanged: by the callback, by the wrapper on a list of markers, and by the wrapper at
  its place in any list the wrapper returns for, also beside raw messages. The wrapper
  returns whenever no raw message of the list has an offset beyond the buffer's length.
  Wrapping the result of a wrap again gives the same result (a failed wrap stays failed).
\<close>

theorem wrapAsMonacoMessage_marker_unchanged:
  "wrapMessage type code (Marker e) = Inr (Marker e)
   \<and> wrapAsMonacoMessage type code (map Marker es) = Inr (map Marker es)
   \<and> (case wrapAsMonacoMessage type code messages of
        Inl err \<Rightarrow> Inl err
      | Inr out \<Rightarrow> wrapAsMonacoMessage type code out) = wrapAsMonacoMessage type code messages
   \<and> (\<forall>out i e'. wrapAsMonacoMessage type code messages = Inr out \<and> i < length messages
          \<and> messages ! i = Marker e' \<longrightarrow> out ! i = Marker e')
   \<and> ((\<forall>msg \<in> set messages. \<forall>r loc. msg = Raw r \<and> location r = Some loc \<longrightarrow>
             min_offset loc \<le> int (length code)
             \<and> max_or_zero (max_offset loc) \<le> int (length code)) \<longrightarrow>
        (\<exists>out. wrapAsMonacoMessage type code messages = Inr out
           \<and> length out = length messages
           \<and> (\<forall>i e'. i < length messages \<and> messages ! i = Marker e' \<longrightarrow> out ! i = Marker e')))"
proof -
  have a: "wrapAsMonacoMessage type code (map Marker es) = Inr (map Marker es)"
    unfolding wrapAsMonacoMessage_def by (rule map_throwing_fixed) auto
  have b: "wrapAsMonacoMessage type code out = Inr out"
    if "wrapAsMonacoMessage type code messages = Inr out" for out
    unfolding wrapAsMonacoMessage_def
  proof (rule map_throwing_fixed)
    fix x assume "x \<in> set out"
    then obtain i where i: "i < length out" "out ! i = x" by (auto simp: in_set_conv_nth)
    with that have "wrapMessage type code (messages ! i) = Inr x"
      using wrapAsMonacoMessage_nth [OF that, of i] wrapAsMonacoMessage_length [OF that] by simp
    then obtain e where "x = Marker e" using wrapMessage_is_Marker by blast
    then show "wrapMessage type code x = Inr x" by simp
  qed
  have c: "out ! i = Marker e'"
    if "wrapAsMonacoMessage type code messages = Inr out" and "i < length messages"
      and "messages ! i = Marker e'" for out i e'
    using wrapAsMonacoMessage_nth [OF that(1) that(2)] that(3) by simp
  have d: "\<exists>out. wrapAsMonacoMessage type code messages = Inr out
           \<and> length out = length messages
           \<and> (\<forall>i e'. i < length messages \<and> messages ! i = Marker e' \<longrightarrow> out ! i = Marker e')"
    if "\<forall>msg \<in> set messages. \<forall>r loc. msg = Raw r \<and> location r = Some loc \<longrightarrow>
             min_offset loc \<le> int (length code)
             \<and> max_or_zero (max_offset loc) \<le> int (length code)"
  proof -
    from wrapAsMonacoMessage_succeeds [OF that, of type]
    obtain out where out: "wrapAsMonacoMessage type code messages = Inr out" by blast
    with c wrapAsMonacoMessage_length [OF out] show ?thesis by blast
  qed
  have ab: "wrapMessage type code (Marker e) = Inr (Marker e)
   \<and> wrapAsMonacoMessage type code (map Marker es) = Inr (map Marker es)
   \<and> (case wrapAsMonacoMessage type code messages of
        Inl err \<Rightarrow> Inl err
      | Inr out \<Rightarrow> wrapAsMonacoMessage type code out) = wrapAsMonacoMessage type code messages"
    using a b by (auto split: sum.splits)
  from ab c d show ?thesis by blast
qed

theorem wrapAsMonacoMessage_marker_unchanged_witness:
  "wrapAsMonacoMessage TypeError example_buffer
      [Raw \<lparr>text_of = example_text, location = Some \<lparr>min_offset = 2, max_offset = Some 3\<rparr>\<rparr>,
       Marker \<lparr>message = [], startColumn = 1, startLineNumber = 1, endColumn = 2,
               endLineNumber = 1, severity = Info, source = None\<rparr>]
     = Inr [Marker \<lparr>message = example_text, startColumn = 1, startLineNumber = 2,
                     endColumn = 3, endLineNumber = 2, severity = Error,
                     source = Some client\<rparr>,
            Marker \<lparr>message = [], startColumn = 1, startLineNumber = 1, endColumn = 2,
               endLineNumber = 1, severity = Info, source = None\<rparr>]"
proof -
  let ?m0 = "\<lparr>message = [], startColumn = 1, startLineNumber = 1, endColumn = 2,
               endLineNumber = 1, severity = Info, source = None\<rparr>"
  let ?ms = "[Raw \<lparr>text_of = example_text, location = Some \<lparr>min_offset = 2, max_offset = Some 3\<rparr>\<rparr>,
       Marker ?m0]"
  have bounds: "\<forall>msg \<in> set ?ms. \<forall>r loc. msg = Raw r \<and> location r = Some loc \<longrightarrow>
             min_offset loc \<le> int (length example_buffer)
             \<and> max_or_zero (max_offset loc) \<le> int (length example_buffer)"
    by (auto simp: example_buffer_length max_or_zero_def)
  from wrapAsMonacoMessage_marker_unchanged [of TypeError example_buffer ?m0 "[]" ?ms] bounds
  obtain out where out: "wrapAsMonacoMessage TypeError example_buffer ?ms = Inr out"
    and len: "length out = length ?ms"
    and keep: "\<forall>i e'. i < length ?ms \<and> ?ms ! i = Marker e' \<longrightarrow> out ! i = Marker e'"
    by blast
  from keep have "out ! 1 = Marker ?m0" by simp
  with out show ?thesis
    by (simp add: wrapAsMonacoMessage_def offsetToRowColumn_def example_buffer_lines max_or_zero_def)
qed

text \<open>
  C5. For every severity tag and buffer, a raw message without a location becomes a
  marker with start line 0, start column 0, end line 0 and end column 1: both positions
  are the fallback position, and the end column is the fallback column plus one.
\<close>

theorem wrapMessage_no_location:
  "wrapMessage type code (Raw \<lparr>text_of = t, location = None\<rparr>)
     = Inr (Marker \<lparr>message = t, startColumn = 0, startLineNumber = 0,
                     endColumn = 1, endLineNumber = 0,
                     severity = (if type = TypeError then Error else Warning),
                     source = Some client\<rparr>)
   \<and> (\<forall>out i. wrapAsMonacoMessage type code messages = Inr out \<and> i < length messages
          \<and> messages ! i = Raw \<lparr>text_of = t, location = None\<rparr> \<longrightarrow>
        out ! i = Marker \<lparr>message = t, startColumn = 0, startLineNumber = 0,
                     endColumn = 1, endLineNumber = 0,
                     severity = (if type = TypeError then Error else Warning),
                     source = Some client\<rparr>)"
proof -
  have a: "wrapMessage type code (Raw \<lparr>text_of = t, location = None\<rparr>)
     = Inr (Marker \<lparr>message = t, startColumn = 0, startLineNumber = 0,
                     endColumn = 1, endLineNumber = 0,
                     severity = (if type = TypeError then Error else Warning),
                     source = Some client\<rparr>)"
    by (simp add: fallbackPosition_def)
  show ?thesis
  proof (intro conjI allI impI)
    show "wrapMessage type code (Raw \<lparr>text_of = t, location = None\<rparr>)
     = Inr (Marker \<lparr>message = t, startColumn = 0, startLineNumber = 0,
                     endColumn = 1, endLineNumber = 0,
                     severity = (if type = TypeError then Error else Warning),
                     source = Some client\<rparr>)" by (rule a)
  next
    fix out i
    assume h: "wrapAsMonacoMessage type code messages = Inr out \<and> i < length messages
          \<and> messages ! i = Raw \<lparr>text_of = t, location = None\<rparr>"
    then have "wrapMessage type code (messages ! i) = Inr (out ! i)"
      using wrapAsMonacoMessage_nth by blast
    with h a show "out ! i = Marker \<lparr>message = t, startColumn = 0, startLineNumber = 0,
                     endColumn = 1, endLineNumber = 0,
                     severity = (if type = TypeError then Error else Warning),
                     source = Some client\<rparr>" by simp
  qed
qed

theorem wrapMessage_no_location_witness:
  "wrapAsMonacoMessage TypeWarning example_buffer
      [Marker \<lparr>message = [], startColumn = 1, startLineNumber = 1, endColumn = 2,
               endLineNumber = 1, severity = Hint, source = None\<rparr>,
       Raw \<lparr>text_of = example_text, location = None\<rparr>]
     = Inr [Marker \<lparr>message = [], startColumn = 1, startLineNumber = 1, endColumn = 2,
               endLineNumber = 1, severity = Hint, source = None\<rparr>,
            Marker \<lparr>message = example_text, startColumn = 0, startLineNumber = 0,
                     endColumn = 1, endLineNumber = 0, severity = Warning,
                     source = Some client\<rparr>]"
proof -
  let ?ms = "[Marker \<lparr>message = [], startColumn = 1, startLineNumber = 1, endColumn = 2,
               endLineNumber = 1, severity = Hint, source = None\<rparr>,
       Raw \<lparr>text_of = example_text, location = None\<rparr>]"
  obtain out where out: "wrapAsMonacoMessage TypeWarning example_buffer ?ms = Inr out"
    by (simp add: wrapAsMonacoMessage_def fallbackPosition_def)
  with wrapMessage_no_location [of TypeWarning example_buffer example_text ?ms]
  have "out ! 1 = Marker \<lparr>message = example_text, startColumn = 0, startLineNumber = 0,
                     endColumn = 1, endLineNumber = 0, severity = Warning,
                     source = Some client\<rparr>"
    by simp
  with out show ?thesis by (simp add: wrapAsMonacoMessage_def fallbackPosition_def)
qed

theorem wrapMessage_no_location_counterexample:
  "wrapAsMonacoMessage TypeError example_buffer [Raw \<lparr>text_of = example_text, location = None\<rparr>]
     = Inr [Marker \<lparr>message = example_text, startColumn = 0, startLineNumber = 0,
                    endColumn = 1, endLineNumber = 0, severity = Error, source = Some client\<rparr>]
   \<and> wrapAsMonacoMessage TypeError example_buffer [Raw \<lparr>text_of = example_text, location = None\<rparr>]
     \<noteq> Inr [Marker \<lparr>message = example_text, startColumn = 0, startLineNumber = 0,
                    endColumn = 0, endLineNumber = 0, severity = Error, source = Some client\<rparr>]"
  by (simp add: wrapAsMonacoMessage_def fallbackPosition_def)

text \<open>
  C6. For a raw message whose location has a \<^verbatim>\<open>max\<close> between 0 and the buffer's
  length, every marker the wrapper produces for it has the column of the translated
  \<^verbatim>\<open>max\<close> plus one as its end column and the column of the translated
  \<^verbatim>\<open>min\<close>, with nothing added, as its start column. The wrapper returns a list
  with that marker at the message's place whenever no raw message of the list has an
  offset beyond the buffer's length.
\<close>

theorem wrapAsMonacoMessage_end_column:
  assumes "0 \<le> mx" and "mx \<le> int (length code)"
    and "location e = Some loc" and "max_offset loc = Some mx"
  shows "(min_offset loc \<le> int (length code) \<longrightarrow>
            (\<exists>m. wrapMessage type code (Raw e) = Inr (Marker m)))
       \<and> (\<forall>m'. wrapMessage type code (Raw e) = Inr m' \<longrightarrow>
            (\<exists>m ps pe. m' = Marker m
               \<and> offsetToRowColumn code (min_offset loc) = Inr ps
               \<and> offsetToRowColumn code mx = Inr pe
               \<and> startColumn m = column ps
               \<and> endColumn m = column pe + 1))
       \<and> (\<forall>out i. wrapAsMonacoMessage type code messages = Inr out \<and> i < length messages
              \<and> messages ! i = Raw e \<longrightarrow>
            (\<exists>m ps pe. out ! i = Marker m
               \<and> offsetToRowColumn code (min_offset loc) = Inr ps
               \<and> offsetToRowColumn code mx = Inr pe
               \<and> startColumn m = column ps
               \<and> endColumn m = column pe + 1))
       \<and> (\<forall>i. i < length messages \<and> messages ! i = Raw e
              \<and> (\<forall>msg \<in> set messages. \<forall>r l. msg = Raw r \<and> location r = Some l \<longrightarrow>
                    min_offset l \<le> int (length code)
                    \<and> max_or_zero (max_offset l) \<le> int (length code)) \<longrightarrow>
            (\<exists>out m ps pe. wrapAsMonacoMessage type code messages = Inr out
               \<and> length out = length messages
               \<and> out ! i = Marker m
               \<and> offsetToRowColumn code (min_offset loc) = Inr ps
               \<and> offsetToRowColumn code mx = Inr pe
               \<and> startColumn m = column ps
               \<and> endColumn m = column pe + 1))"
proof -
  from assms(4) have mz: "max_or_zero (max_offset loc) = mx"
    by (simp add: max_or_zero_def)
  have succeeds: "\<exists>m. wrapMessage type code (Raw e) = Inr (Marker m)"
    if "min_offset loc \<le> int (length code)"
  proof -
    from that obtain ps where "offsetToRowColumn code (min_offset loc) = Inr ps"
      using offsetToRowColumn_succeeds by blast
    moreover from assms(2) obtain pe where "offsetToRowColumn code mx = Inr pe"
      using offsetToRowColumn_succeeds by blast
    ultimately show ?thesis
      using wrapMessage_location [OF assms(3), of type code] mz by simp
  qed
  have element: "\<exists>m ps pe. m' = Marker m
               \<and> offsetToRowColumn code (min_offset loc) = Inr ps
               \<and> offsetToRowColumn code mx = Inr pe
               \<and> startColumn m = column ps
               \<and> endColumn m = column pe + 1"
    if "wrapMessage type code (Raw e) = Inr m'" for m'
    using that wrapMessage_location [OF assms(3), of type code m'] mz by auto
  have all: "\<exists>m ps pe. out ! i = Marker m
               \<and> offsetToRowColumn code (min_offset loc) = Inr ps
               \<and> offsetToRowColumn code mx = Inr pe
               \<and> startColumn m = column ps
               \<and> endColumn m = column pe + 1"
    if "wrapAsMonacoMessage type code messages = Inr out \<and> i < length messages
              \<and> messages ! i = Raw e" for out i
  proof -
    from that have "wrapMessage type code (messages ! i) = Inr (out ! i)"
      using wrapAsMonacoMessage_nth by blast
    with that show ?thesis using element by simp
  qed
  have produced: "\<exists>out m ps pe. wrapAsMonacoMessage type code messages = Inr out
               \<and> length out = length messages
               \<and> out ! i = Marker m
               \<and> offsetToRowColumn code (min_offset loc) = Inr ps
               \<and> offsetToRowColumn code mx = Inr pe
               \<and> startColumn m = column ps
               \<and> endColumn m = column pe + 1"
    if "i < length messages \<and> messages ! i = Raw e
              \<and> (\<forall>msg \<in> set messages. \<forall>r l. msg = Raw r \<and> location r = Some l \<longrightarrow>
                    min_offset l \<le> int (length code)
                    \<and> max_or_zero (max_offset l) \<le> int (length code))" for i
  proof -
    from that have "\<forall>msg \<in> set messages. \<forall>r l. msg = Raw r \<and> location r = Some l \<longrightarrow>
                    min_offset l \<le> int (length code)
                    \<and> max_or_zero (max_offset l) \<le> int (length code)" by blast
    from wrapAsMonacoMessage_succeeds [OF this, of type]
    obtain out where out: "wrapAsMonacoMessage type code messages = Inr out" by blast
    with that all [of out i] wrapAsMonacoMessage_length [OF out] show ?thesis by blast
  qed
  from succeeds element all produced show ?thesis by blast
qed

theorem wrapAsMonacoMessage_end_column_witness:
  "wrapAsMonacoMessage TypeError example_buffer
      [Marker \<lparr>message = [], startColumn = 1, startLineNumber = 1, endColumn = 2,
               endLineNumber = 1, severity = Hint, source = None\<rparr>,
       Raw \<lparr>text_of = example_text, location = Some \<lparr>min_offset = 0, max_offset = Some 5\<rparr>\<rparr>]
     = Inr [Marker \<lparr>message = [], startColumn = 1, startLineNumber = 1, endColumn = 2,
               endLineNumber = 1, severity = Hint, source = None\<rparr>,
            Marker \<lparr>message = example_text, startColumn = 1, startLineNumber = 1,
                     endColumn = 2, endLineNumber = 3, severity = Error,
                     source = Some client\<rparr>]
   \<and> offsetToRowColumn example_buffer 0 = Inr \<lparr>lineNumber = 1, column = 1\<rparr>
   \<and> offsetToRowColumn example_buffer 5 = Inr \<lparr>lineNumber = 3, column = 1\<rparr>"
proof -
  let ?loc = "\<lparr>min_offset = 0, max_offset = Some 5\<rparr>"
  let ?e = "\<lparr>text_of = example_text, location = Some ?loc\<rparr>"
  let ?ms = "[Marker \<lparr>message = [], startColumn = 1, startLineNumber = 1, endColumn = 2,
               endLineNumber = 1, severity = Hint, source = None\<rparr>, Raw ?e]"
  have h: "(0::int) \<le> 5" "5 \<le> int (length example_buffer)"
    "location ?e = Some ?loc" "max_offset ?loc = Some 5"
    by (simp_all add: example_buffer_length)
  have bounds: "1 < length ?ms \<and> ?ms ! 1 = Raw ?e
      \<and> (\<forall>msg \<in> set ?ms. \<forall>r l. msg = Raw r \<and> location r = Some l \<longrightarrow>
             min_offset l \<le> int (length example_buffer)
             \<and> max_or_zero (max_offset l) \<le> int (length example_buffer))"
    by (auto simp: example_buffer_length max_or_zero_def)
  note produced = wrapAsMonacoMessage_end_column [OF h, of TypeError ?ms,
      THEN conjunct2, THEN conjunct2, THEN conjunct2]
  from produced [THEN spec, of 1, THEN mp, OF bounds]
  obtain out m ps pe where out: "wrapAsMonacoMessage TypeError example_buffer ?ms = Inr out"
    and m: "out ! 1 = Marker m"
    and ps: "offsetToRowColumn example_buffer (min_offset ?loc) = Inr ps"
    and pe: "offsetToRowColumn example_buffer 5 = Inr pe"
    and cols: "startColumn m = column ps" "endColumn m = column pe + 1"
    by blast
  have z: "offsetToRowColumn example_buffer 0 = Inr \<lparr>lineNumber = 1, column = 1\<rparr>"
    "offsetToRowColumn example_buffer 5 = Inr \<lparr>lineNumber = 3, column = 1\<rparr>"
    by (simp_all add: offsetToRowColumn_def example_buffer_lines)
  with ps pe cols have "startColumn m = 1" and "endColumn m = 2" by auto
  with out m z show ?thesis
    by (auto simp: wrapAsMonacoMessage_def max_or_zero_def)
qed

text \<open>
  C7. On the example buffer, the raw message with text \<^verbatim>\<open>"bad"\<close> and location
  \<^verbatim>\<open>{min: 2, max: 3}\<close> becomes the marker with start line 2, start column 1, end
  line 2, end column 3 and message \<^verbatim>\<open>"bad"\<close>, under either severity tag.
\<close>

theorem wrapAsMonacoMessage_example:
  "wrapAsMonacoMessage type example_buffer
      [Raw \<lparr>text_of = example_text, location = Some \<lparr>min_offset = 2, max_offset = Some 3\<rparr>\<rparr>]
     = Inr [Marker \<lparr>message = example_text, startColumn = 1, startLineNumber = 2,
                     endColumn = 3, endLineNumber = 2,
                     severity = (if type = TypeError then Error else Warning),
                     source = Some client\<rparr>]"
  by (simp add: wrapAsMonacoMessage_def offsetToRowColumn_def example_buffer_lines max_or_zero_def)

text \<open>
  C9. Whenever the wrapper returns, it returns one element for each input message, and
  every element is a marker: it has a severity and a line/column range, and no offset
  range.
\<close>

theorem wrapAsMonacoMessage_all_markers:
  assumes "wrapAsMonacoMessage type code messages = Inr out"
  shows "length out = length messages \<and> (\<forall>m \<in> set out. \<exists>e. m = Marker e)"
proof -
  have "\<exists>e. m = Marker e" if "m \<in> set out" for m
  proof -
    from that obtain i where i: "i < length out" "out ! i = m" by (auto simp: in_set_conv_nth)
    then have "wrapMessage type code (messages ! i) = Inr m"
      using wrapAsMonacoMessage_nth [OF assms, of i] wrapAsMonacoMessage_length [OF assms] by simp
    then show ?thesis by (rule wrapMessage_is_Marker)
  qed
  with wrapAsMonacoMessage_length [OF assms] show ?thesis by blast
qed

theorem wrapAsMonacoMessage_all_markers_witness:
  "wrapAsMonacoMessage TypeError example_buffer
      [Raw \<lparr>text_of = example_text, location = None\<rparr>,
       Marker \<lparr>message = [], startColumn = 1, startLineNumber = 1, endColumn = 2,
               endLineNumber = 1, severity = Info, source = None\<rparr>]
     = Inr [Marker \<lparr>message = example_text, startColumn = 0, startLineNumber = 0,
                     endColumn = 1, endLineNumber = 0, severity = Error,
                     source = Some client\<rparr>,
            Marker \<lparr>message = [], startColumn = 1, startLineNumber = 1, endColumn = 2,
               endLineNumber = 1, severity = Info, source = None\<rparr>]
   \<and> (\<exists>e. Marker \<lparr>message = example_text, startColumn = 0, startLineNumber = 0,
                     endColumn = 1, endLineNumber = 0, severity = Error,
                     source = Some client\<rparr> = Marker e)"
proof -
  let ?ms = "[Raw \<lparr>text_of = example_text, location = None\<rparr>,
       Marker \<lparr>message = [], startColumn = 1, startLineNumber = 1, endColumn = 2,
               endLineNumber = 1, severity = Info, source = None\<rparr>]"
  let ?out = "[Marker \<lparr>message = example_text, startColumn = 0, startLineNumber = 0,
                     endColumn = 1, endLineNumber = 0, severity = Error,
                     source = Some client\<rparr>,
            Marker \<lparr>message = [], startColumn = 1, startLineNumber = 1, endColumn = 2,
               endLineNumber = 1, severity = Info, source = None\<rparr>]"
  have w: "wrapAsMonacoMessage TypeError example_buffer ?ms = Inr ?out"
    by (simp add: wrapAsMonacoMessage_def fallbackPosition_def)
  from wrapAsMonacoMessage_all_markers [OF w] w show ?thesis by simp
qed

text \<open>
  C10. For a raw message whose location has an absent or zero \<^verbatim>\<open>max\<close>, the end of
  the marker is computed from offset 0, which is line 1, column 1 in every buffer: every
  marker produced for it has end line 1 and end column 2, wherever \<^verbatim>\<open>min\<close> puts the
  start. The wrapper returns a list with that marker at the message's place whenever no
  raw message of the list has an offset beyond the buffer's length.
\<close>

theorem wrapAsMonacoMessage_max_falsy:
  assumes "location e = Some loc" and "max_offset loc = None \<or> max_offset loc = Some 0"
  shows "offsetToRowColumn code 0 = Inr \<lparr>lineNumber = 1, column = 1\<rparr>
       \<and> (min_offset loc \<le> int (length code) \<longrightarrow>
            (\<exists>m. wrapMessage type code (Raw e) = Inr (Marker m)))
       \<and> (\<forall>m'. wrapMessage type code (Raw e) = Inr m' \<longrightarrow>
            (\<exists>m. m' = Marker m \<and> endLineNumber m = 1 \<and> endColumn m = 2))
       \<and> (\<forall>out i. wrapAsMonacoMessage type code messages = Inr out \<and> i < length messages
              \<and> messages ! i = Raw e \<longrightarrow>
            (\<exists>m. out ! i = Marker m \<and> endLineNumber m = 1 \<and> endColumn m = 2))
       \<and> (\<forall>i. i < length messages \<and> messages ! i = Raw e
              \<and> (\<forall>msg \<in> set messages. \<forall>r l. msg = Raw r \<and> location r = Some l \<longrightarrow>
                    min_offset l \<le> int (length code)
                    \<and> max_or_zero (max_offset l) \<le> int (length code)) \<longrightarrow>
            (\<exists>out m. wrapAsMonacoMessage type code messages = Inr out
               \<and> length out = length messages
               \<and> out ! i = Marker m \<and> endLineNumber m = 1 \<and> endColumn m = 2))"
proof -
  from assms(2) have mz: "max_or_zero (max_offset loc) = 0"
    by (auto simp: max_or_zero_def)
  have succeeds: "\<exists>m. wrapMessage type code (Raw e) = Inr (Marker m)"
    if "min_offset loc \<le> int (length code)"
  proof -
    from that obtain ps where "offsetToRowColumn code (min_offset loc) = Inr ps"
      using offsetToRowColumn_succeeds by blast
    then show ?thesis
      using wrapMessage_location [OF assms(1), of type code] mz
      by (simp add: offsetToRowColumn_zero)
  qed
  have element: "\<exists>m. m' = Marker m \<and> endLineNumber m = 1 \<and> endColumn m = 2"
    if "wrapMessage type code (Raw e) = Inr m'" for m'
    using that wrapMessage_location [OF assms(1), of type code m'] mz
    by (auto simp: offsetToRowColumn_zero)
  have all: "\<exists>m. out ! i = Marker m \<and> endLineNumber m = 1 \<and> endColumn m = 2"
    if "wrapAsMonacoMessage type code messages = Inr out \<and> i < length messages
              \<and> messages ! i = Raw e" for out i
  proof -
    from that have "wrapMessage type code (messages ! i) = Inr (out ! i)"
      using wrapAsMonacoMessage_nth by blast
    with that show ?thesis using element by simp
  qed
  have produced: "\<exists>out m. wrapAsMonacoMessage type code messages = Inr out
               \<and> length out = length messages
               \<and> out ! i = Marker m \<and> endLineNumber m = 1 \<and> endColumn m = 2"
    if "i < length messages \<and> messages ! i = Raw e
              \<and> (\<forall>msg \<in> set messages. \<forall>r l. msg = Raw r \<and> location r = Some l \<longrightarrow>
                    min_offset l \<le> int (length code)
                    \<and> max_or_zero (max_offset l) \<le> int (length code))" for i
  proof -
    from that have "\<forall>msg \<in> set messages. \<forall>r l. msg = Raw r \<and> location r = Some l \<longrightarrow>
                    min_offset l \<le> int (length code)
                    \<and> max_or_zero (max_offset l) \<le> int (length code)" by blast
    from wrapAsMonacoMessage_succeeds [OF this, of type]
    obtain out where out: "wrapAsMonacoMessage type code messages = Inr out" by blast
    with that all [of out i] wrapAsMonacoMessage_length [OF out] show ?thesis by blast
  qed
  have zero: "offsetToRowColumn code 0 = Inr \<lparr>lineNumber = 1, column = 1\<rparr>"
    by (rule offsetToRowColumn_zero)
  from zero succeeds element all produced show ?thesis by blast
qed

theorem wrapAsMonacoMessage_max_falsy_witness:
  "wrapAsMonacoMessage TypeWarning example_buffer
      [Raw \<lparr>text_of = example_text, location = Some \<lparr>min_offset = 3, max_offset = None\<rparr>\<rparr>,
       Raw \<lparr>text_of = example_text, location = Some \<lparr>min_offset = 3, max_offset = Some 0\<rparr>\<rparr>]
     = Inr [Marker \<lparr>message = example_text, startColumn = 2, startLineNumber = 2,
                     endColumn = 2, endLineNumber = 1, severity = Warning,
                     source = Some client\<rparr>,
            Marker \<lparr>message = example_text, startColumn = 2, startLineNumber = 2,
                     endColumn = 2, endLineNumber = 1, severity = Warning,
                     source = Some client\<rparr>]"
proof -
  let ?l1 = "\<lparr>min_offset = 3, max_offset = None\<rparr>"
  let ?l2 = "\<lparr>min_offset = 3, max_offset = Some 0\<rparr>"
  let ?e1 = "\<lparr>text_of = example_text, location = Some ?l1\<rparr>"
  let ?e2 = "\<lparr>text_of = example_text, location = Some ?l2\<rparr>"
  let ?ms = "[Raw ?e1, Raw ?e2]"
  have a1: "location ?e1 = Some ?l1" and b1: "max_offset ?l1 = None \<or> max_offset ?l1 = Some 0"
    and a2: "location ?e2 = Some ?l2" and b2: "max_offset ?l2 = None \<or> max_offset ?l2 = Some 0"
    by simp_all
  have bounds: "\<forall>msg \<in> set ?ms. \<forall>r l. msg = Raw r \<and> location r = Some l \<longrightarrow>
             min_offset l \<le> int (length example_buffer)
             \<and> max_or_zero (max_offset l) \<le> int (length example_buffer)"
    by (auto simp: example_buffer_length max_or_zero_def)
  have i0: "0 < length ?ms \<and> ?ms ! 0 = Raw ?e1
      \<and> (\<forall>msg \<in> set ?ms. \<forall>r l. msg = Raw r \<and> location r = Some l \<longrightarrow>
             min_offset l \<le> int (length example_buffer)
             \<and> max_or_zero (max_offset l) \<le> int (length example_buffer))"
    and i1: "1 < length ?ms \<and> ?ms ! 1 = Raw ?e2"
    using bounds by simp_all
  note first = wrapAsMonacoMessage_max_falsy [OF a1 b1, of example_buffer TypeWarning ?ms,
      THEN conjunct2, THEN conjunct2, THEN conjunct2, THEN conjunct2]
  from first [THEN spec, of 0, THEN mp, OF i0]
  obtain out m1 where out: "wrapAsMonacoMessage TypeWarning example_buffer ?ms = Inr out"
    and m1: "out ! 0 = Marker m1" "endLineNumber m1 = 1" "endColumn m1 = 2"
    by blast
  note second = wrapAsMonacoMessage_max_falsy [OF a2 b2, of example_buffer TypeWarning ?ms,
      THEN conjunct2, THEN conjunct2, THEN conjunct2, THEN conjunct1]
  from second [THEN spec, of out, THEN spec, of 1, THEN mp] out i1
  obtain m2 where m2: "out ! 1 = Marker m2" "endLineNumber m2 = 1" "endColumn m2 = 2"
    by blast
  from out m1 m2 show ?thesis
    by (simp add: wrapAsMonacoMessage_def offsetToRowColumn_def example_buffer_lines max_or_zero_def)
qed

section \<open>Properties of autocomplete\<close>

text \<open>
  C8. For every list of suggestion entries, autocomplete returns as many entries, in the
  same order; in each the field \<^verbatim>\<open>range\<close> holds \<^verbatim>\<open>undefined\<close> and every other
  field is as in the entry it comes from.
\<close>

theorem autocomplete_resets_range:
  "length (suggestions (autocomplete suggestionEntries)) = length suggestionEntries
   \<and> (\<forall>i < length suggestionEntries.
        (suggestions (autocomplete suggestionEntries) ! i) ''range'' = Some Undefined
        \<and> (\<forall>field. field \<noteq> ''range'' \<longrightarrow>
             (suggestions (autocomplete suggestionEntries) ! i) field = (suggestionEntries ! i) field))"
  by (simp add: autocomplete_def)

theorem autocomplete_resets_range_witness:
  "suggestions (autocomplete [[''label'' \<mapsto> Defined (1::nat), ''range'' \<mapsto> Defined 2], [''label'' \<mapsto> Defined 3]])
     = [[''label'' \<mapsto> Defined 1, ''range'' \<mapsto> Undefined], [''label'' \<mapsto> Defined 3, ''range'' \<mapsto> Undefined]]
   \<and> (suggestions (autocomplete [[''label'' \<mapsto> Defined (1::nat), ''range'' \<mapsto> Defined 2], [''label'' \<mapsto> Defined 3]]) ! 0) ''range'' = Some Undefined
   \<and> (suggestions (autocomplete [[''label'' \<mapsto> Defined (1::nat), ''range'' \<mapsto> Defined 2], [''label'' \<mapsto> Defined 3]]) ! 0) ''label'' = Some (Defined 1)"
  using autocomplete_resets_range [of "[[''label'' \<mapsto> Defined (1::nat), ''range'' \<mapsto> Defined 2], [''label'' \<mapsto> Defined 3]]"]
  by (simp add: autocomplete_def)

end
